theory Spec2Isabelle
  imports Main
begin

section \<open>The SPICE viewer of \<^verbatim>\<open>main.c\<close> as state transformers\<close>

text \<open>
  \<^verbatim>\<open>main.c\<close> is GTK glue around the SPICE client library: four callbacks
  (\<^verbatim>\<open>onClose\<close>, \<^verbatim>\<open>channelEvent\<close>, \<^verbatim>\<open>newChannel\<close>, \<^verbatim>\<open>activate\<close>) and \<^verbatim>\<open>main\<close>,
  sharing the two globals \<^verbatim>\<open>window\<close> and \<^verbatim>\<open>spiceSession\<close>.

  The embedding keeps what the program itself owns in a record: the two globals, the
  signal connections it has made (one list per \<^verbatim>\<open>g_signal_connect\<close> call site, one entry
  per call, in connection order), and the object properties it has set. Everything the
  program asks of GTK and of the SPICE library is appended to \<open>calls\<close>, in program order.
  Objects are pointers: a natural number, \<open>0\<close> for \<^verbatim>\<open>NULL\<close>; a library constructor returns
  the next unused one.
\<close>

subsection \<open>Data\<close>

type_synonym ptr = nat

definition NULL :: ptr where
  "NULL = 0"

text \<open>\<^verbatim>\<open>SpiceChannelEvent\<close> of \<^verbatim>\<open>spice-channel.h\<close>.\<close>

datatype SpiceChannelEvent =
    SPICE_CHANNEL_NONE
  | SPICE_CHANNEL_OPENED
  | SPICE_CHANNEL_SWITCHING
  | SPICE_CHANNEL_CLOSED
  | SPICE_CHANNEL_ERROR_CONNECT
  | SPICE_CHANNEL_ERROR_TLS
  | SPICE_CHANNEL_ERROR_LINK
  | SPICE_CHANNEL_ERROR_AUTH
  | SPICE_CHANNEL_ERROR_IO

text \<open>
  A \<^verbatim>\<open>SpiceChannel\<close> object, as far as the program reads it: its identity and the two
  \<^verbatim>\<open>gint\<close> properties \<^verbatim>\<open>"channel-type"\<close> and \<^verbatim>\<open>"channel-id"\<close> fetched with
  \<^verbatim>\<open>g_object_get\<close>. Channels are made by the library, not by a constructor call of the
  program, so their identities are a name space of their own.
\<close>

datatype channel = Channel (chan_ref: nat) (channel_type: int) (channel_id: int)

text \<open>
  The program compares the channel type against the literals \<open>1\<close> (Main) and \<open>2\<close>
  (Display) only. The type of a USB-redirection channel in the SPICE protocol
  (\<^verbatim>\<open>spice/enums.h\<close>) is named here for the statements about it.
\<close>

definition SPICE_CHANNEL_USBREDIR :: int where
  "SPICE_CHANNEL_USBREDIR = 9"

text \<open>
  Arguments of a \<^verbatim>\<open>printf\<close> call. \<open>Type_name t\<close> stands for the text that
  \<^verbatim>\<open>spice_channel_type_to_string(t)\<close> returns.
\<close>

datatype printf_arg = Int_arg int | Type_name int

datatype lib_call =
    Printf string "printf_arg list"
  | G_signal_emit_by_name ptr string
  | G_object_set_property ptr string string
  | G_object_unref ptr
  | Gtk_application_new string ptr
  | Gtk_application_window_new ptr ptr
  | Gtk_window_new ptr
  | Gtk_window_set_title ptr string
  | Gtk_window_set_default_size ptr int int
  | Gtk_container_add ptr ptr
  | Gtk_widget_show_all ptr
  | Spice_session_new ptr
  | Spice_session_connect ptr "string option"
  | Spice_session_disconnect ptr
  | Spice_display_new ptr int ptr
  | Spice_usb_device_widget_new ptr string ptr

text \<open>
  For a constructor the last argument is the object returned.
  \<open>Spice_session_connect s u\<close> carries the value \<open>u\<close> of the session's \<^verbatim>\<open>"uri"\<close>
  property at the moment of the call: the target the library connects to.
\<close>

record world =
  window :: ptr
  spiceSession :: ptr
  next_ptr :: ptr
  activate_handlers :: "ptr list"
  destroy_handlers :: "ptr list"
  channel_new_handlers :: "ptr list"
  channel_event_handlers :: "channel list"
  properties :: "((ptr \<times> string) \<times> string) list"
  calls :: "lib_call list"

text \<open>
  \<open>activate_handlers\<close>: applications whose \<^verbatim>\<open>"activate"\<close> runs \<^verbatim>\<open>activate\<close> (line 66);
  \<open>destroy_handlers\<close>: widgets whose \<^verbatim>\<open>"destroy"\<close> runs \<^verbatim>\<open>onClose\<close> (line 47);
  \<open>channel_new_handlers\<close>: sessions whose \<^verbatim>\<open>"channel-new"\<close> runs \<^verbatim>\<open>newChannel\<close> (line 51);
  \<open>channel_event_handlers\<close>: channels whose \<^verbatim>\<open>"channel-event"\<close> runs \<^verbatim>\<open>channelEvent\<close>
  (line 25).
\<close>

definition init_world :: world where
  "init_world = \<lparr> window = NULL, spiceSession = NULL, next_ptr = 1,
     activate_handlers = [], destroy_handlers = [], channel_new_handlers = [],
     channel_event_handlers = [], properties = [], calls = [] \<rparr>"

subsection \<open>The library, as far as the program uses it\<close>

definition invoke :: "lib_call \<Rightarrow> world \<Rightarrow> world" where
  "invoke c w = w\<lparr>calls := calls w @ [c]\<rparr>"

definition fresh :: "world \<Rightarrow> ptr \<times> world" where
  "fresh w = (next_ptr w, w\<lparr>next_ptr := Suc (next_ptr w)\<rparr>)"

definition gtk_application_new :: "string \<Rightarrow> world \<Rightarrow> ptr \<times> world" where
  "gtk_application_new app_id w =
     (let (p, w') = fresh w in (p, invoke (Gtk_application_new app_id p) w'))"

definition gtk_application_window_new :: "ptr \<Rightarrow> world \<Rightarrow> ptr \<times> world" where
  "gtk_application_window_new app w =
     (let (p, w') = fresh w in (p, invoke (Gtk_application_window_new app p) w'))"

definition gtk_window_new :: "world \<Rightarrow> ptr \<times> world" where
  "gtk_window_new w = (let (p, w') = fresh w in (p, invoke (Gtk_window_new p) w'))"

definition spice_session_new :: "world \<Rightarrow> ptr \<times> world" where
  "spice_session_new w = (let (p, w') = fresh w in (p, invoke (Spice_session_new p) w'))"

definition spice_display_new :: "ptr \<Rightarrow> int \<Rightarrow> world \<Rightarrow> ptr \<times> world" where
  "spice_display_new session channelId w =
     (let (p, w') = fresh w in (p, invoke (Spice_display_new session channelId p) w'))"

definition spice_usb_device_widget_new :: "ptr \<Rightarrow> string \<Rightarrow> world \<Rightarrow> ptr \<times> world" where
  "spice_usb_device_widget_new session fmt w =
     (let (p, w') = fresh w in (p, invoke (Spice_usb_device_widget_new session fmt p) w'))"

definition g_object_set_property :: "ptr \<Rightarrow> string \<Rightarrow> string \<Rightarrow> world \<Rightarrow> world" where
  "g_object_set_property obj name v w =
     invoke (G_object_set_property obj name v)
       (w\<lparr>properties := ((obj, name), v) # properties w\<rparr>)"

definition spice_session_connect :: "ptr \<Rightarrow> world \<Rightarrow> world" where
  "spice_session_connect session w =
     invoke (Spice_session_connect session (map_of (properties w) (session, ''uri''))) w"

definition newline :: string where
  "newline = [CHR 0x0A]"

subsection \<open>The callbacks\<close>

text \<open>
  \<^verbatim>\<open>void onClose() { spice_session_disconnect(spiceSession); }\<close>
\<close>

definition onClose :: "world \<Rightarrow> world" where
  "onClose w = invoke (Spice_session_disconnect (spiceSession w)) w"

text \<open>
  Emitting \<^verbatim>\<open>"destroy"\<close> on a widget runs \<^verbatim>\<open>onClose\<close> once for every connection made
  to that widget, taken when the emission starts.
\<close>

definition emit_destroy :: "ptr \<Rightarrow> world \<Rightarrow> world" where
  "emit_destroy inst w =
     fold (\<lambda>_. onClose) (filter (\<lambda>p. p = inst) (destroy_handlers w)) w"

text \<open>
  \<^verbatim>\<open>channelEvent(channel, event, user_data)\<close>, lines 12 to 17. \<^verbatim>\<open>user_data\<close> is the
  \<^verbatim>\<open>NULL\<close> given at connection and is not read.
\<close>

definition channelEvent :: "channel \<Rightarrow> SpiceChannelEvent \<Rightarrow> world \<Rightarrow> world" where
  "channelEvent channel event w =
     (if event = SPICE_CHANNEL_ERROR_CONNECT then
        (let w1 = invoke (Printf (''SPICE_CHANNEL_ERROR_CONNECT'' @ newline) []) w;
             w2 = invoke (G_signal_emit_by_name (window w1) ''destroy'') w1
         in emit_destroy (window w2) w2)
      else w)"

text \<open>
  \<^verbatim>\<open>newChannel(session, channel, user_data)\<close>, lines 19 to 40.
\<close>

definition newChannel :: "ptr \<Rightarrow> channel \<Rightarrow> world \<Rightarrow> world" where
  "newChannel session channel w =
     (let channelType = channel_type channel;
          w1 = invoke (Printf (''%d: %s'' @ newline)
                         [Int_arg channelType, Type_name channelType]) w
      in if channelType = 1 then
           w1\<lparr>channel_event_handlers := channel_event_handlers w1 @ [channel]\<rparr>
         else if channelType = 2 then
           (let channelId = channel_id channel;
                (spiceDisplay, w2) = spice_display_new session channelId w1;
                w3 = invoke (Gtk_container_add (window w2) spiceDisplay) w2;
                w4 = invoke (Gtk_widget_show_all (window w3)) w3;
                (USBWindow, w5) = gtk_window_new w4;
                w6 = invoke (Gtk_window_set_title USBWindow ''USB redirection'') w5;
                (USBWidget, w7) =
                   spice_usb_device_widget_new session ''%s %s %s at %d-%d'' w6;
                w8 = invoke (Gtk_container_add USBWindow USBWidget) w7
            in invoke (Gtk_widget_show_all USBWindow) w8)
         else w1)"

text \<open>
  \<^verbatim>\<open>activate(app, user_data)\<close>, lines 43 to 59.
\<close>

definition activate :: "ptr \<Rightarrow> world \<Rightarrow> world" where
  "activate app w =
     (let (win, w1) = gtk_application_window_new app w;
          w2 = w1\<lparr>window := win\<rparr>;
          w3 = invoke (Gtk_window_set_title (window w2) ''VM Viewer'') w2;
          w4 = invoke (Gtk_window_set_default_size (window w3) 800 600) w3;
          w5 = w4\<lparr>destroy_handlers := destroy_handlers w4 @ [window w4]\<rparr>;
          (s, w6) = spice_session_new w5;
          w7 = w6\<lparr>spiceSession := s\<rparr>;
          w8 = w7\<lparr>channel_new_handlers := channel_new_handlers w7 @ [spiceSession w7]\<rparr>;
          w9 = g_object_set_property (spiceSession w8) ''uri''
                 ''spice://localhost?port=5900'' w8
      in spice_session_connect (spiceSession w9) w9)"

subsection \<open>The main loop\<close>

text \<open>
  What the GTK main loop delivers while \<^verbatim>\<open>g_application_run\<close> runs: an activation of
  an application, a \<^verbatim>\<open>"channel-new"\<close> of a session for a channel, a \<^verbatim>\<open>"channel-event"\<close>
  of a channel, and a \<^verbatim>\<open>"destroy"\<close> of a widget (the user closes the window). Each runs
  the callbacks connected to that signal on that object, once per connection.
\<close>

datatype event =
    App_activate ptr
  | Channel_new ptr channel
  | Channel_event channel SpiceChannelEvent
  | Widget_destroy ptr

fun dispatch :: "event \<Rightarrow> world \<Rightarrow> world" where
  "dispatch (App_activate app) w =
     fold (\<lambda>_. activate app) (filter (\<lambda>p. p = app) (activate_handlers w)) w"
| "dispatch (Channel_new session channel) w =
     fold (\<lambda>_. newChannel session channel)
       (filter (\<lambda>p. p = session) (channel_new_handlers w)) w"
| "dispatch (Channel_event channel ev) w =
     fold (\<lambda>_. channelEvent channel ev)
       (filter (\<lambda>c. c = channel) (channel_event_handlers w)) w"
| "dispatch (Widget_destroy widget) w = emit_destroy widget w"

fun run :: "event list \<Rightarrow> world \<Rightarrow> world" where
  "run [] w = w"
| "run (e # es) w = run es (dispatch e w)"

text \<open>
  \<^verbatim>\<open>main(argc, argv)\<close>, lines 61 to 71. \<open>startup\<close> is the state when
  \<^verbatim>\<open>g_application_run\<close> is entered; \<open>running argv evs\<close> is the state once the main loop
  has delivered the events \<open>evs\<close>. The command line goes to \<^verbatim>\<open>g_application_run\<close> and
  nowhere else: it can decide which events the library delivers, never what a callback
  does with them.
\<close>

definition startup :: world where
  "startup =
     (let (app, w1) = gtk_application_new ''org.gtk.example'' init_world
      in w1\<lparr>activate_handlers := activate_handlers w1 @ [app]\<rparr>)"

definition g_application_run :: "string list \<Rightarrow> event list \<Rightarrow> world \<Rightarrow> world" where
  "g_application_run argv evs w = run evs w"

definition running :: "string list \<Rightarrow> event list \<Rightarrow> world" where
  "running argv evs = g_application_run argv evs startup"

definition main_c :: "string list \<Rightarrow> event list \<Rightarrow> world" where
  "main_c argv evs =
     (let (app, w1) = gtk_application_new ''org.gtk.example'' init_world;
          w2 = w1\<lparr>activate_handlers := activate_handlers w1 @ [app]\<rparr>;
          w3 = g_application_run argv evs w2
      in invoke (G_object_unref app) w3)"

subsection \<open>Observations on a state\<close>

text \<open>How many times a callback is connected to an object.\<close>

definition connections :: "'a \<Rightarrow> 'a list \<Rightarrow> nat" where
  "connections x hs = length (filter (\<lambda>p. p = x) hs)"

text \<open>
  The calls of one pass through the fatal path: lines 14 and 15 of \<^verbatim>\<open>channelEvent\<close>,
  then line 9 of \<^verbatim>\<open>onClose\<close>.
\<close>

definition teardown_calls :: "world \<Rightarrow> lib_call list" where
  "teardown_calls w =
     [Printf (''SPICE_CHANNEL_ERROR_CONNECT'' @ newline) [],
      G_signal_emit_by_name (window w) ''destroy'',
      Spice_session_disconnect (spiceSession w)]"

text \<open>The connect and disconnect requests made on one session, in order.\<close>

fun is_session_request :: "ptr \<Rightarrow> lib_call \<Rightarrow> bool" where
  "is_session_request s (Spice_session_connect s' u) = (s' = s)"
| "is_session_request s (Spice_session_disconnect s') = (s' = s)"
| "is_session_request s _ = False"

definition session_requests :: "ptr \<Rightarrow> world \<Rightarrow> lib_call list" where
  "session_requests s w = filter (is_session_request s) (calls w)"

text \<open>Widgets created so far: USB-redirection widgets, display widgets.\<close>

fun is_usb_widget_new :: "lib_call \<Rightarrow> bool" where
  "is_usb_widget_new (Spice_usb_device_widget_new s fmt p) = True"
| "is_usb_widget_new _ = False"

fun is_display_new :: "lib_call \<Rightarrow> bool" where
  "is_display_new (Spice_display_new s n p) = True"
| "is_display_new _ = False"

fun is_display_new_for :: "ptr \<Rightarrow> int \<Rightarrow> lib_call \<Rightarrow> bool" where
  "is_display_new_for s n (Spice_display_new s' n' p) = (s' = s \<and> n' = n)"
| "is_display_new_for s n _ = False"

definition usb_widgets_created :: "world \<Rightarrow> nat" where
  "usb_widgets_created w = length (filter is_usb_widget_new (calls w))"

definition displays_created :: "world \<Rightarrow> nat" where
  "displays_created w = length (filter is_display_new (calls w))"

definition displays_created_for :: "ptr \<Rightarrow> int \<Rightarrow> world \<Rightarrow> nat" where
  "displays_created_for s n w = length (filter (is_display_new_for s n) (calls w))"

subsection \<open>Invariants of a run\<close>

text \<open>
  \<open>world_ok\<close>: connected widgets are objects already handed out, each connected once; once a
  window exists the global \<open>window\<close> is one of them and \<open>spiceSession\<close> is set; a channel
  handler exists only after a session handler does, and only on channels of type 1.
\<close>

definition world_ok :: "world \<Rightarrow> bool" where
  "world_ok w \<longleftrightarrow>
     (\<forall>p \<in> set (destroy_handlers w). p < next_ptr w \<and> p \<noteq> NULL) \<and>
     distinct (destroy_handlers w) \<and>
     0 < next_ptr w \<and>
     spiceSession w < next_ptr w \<and>
     (if destroy_handlers w = []
      then window w = NULL \<and> channel_new_handlers w = []
      else window w \<in> set (destroy_handlers w) \<and> spiceSession w \<noteq> NULL) \<and>
     (channel_event_handlers w \<noteq> [] \<longrightarrow> channel_new_handlers w \<noteq> []) \<and>
     (\<forall>c \<in> set (channel_event_handlers w). channel_type c = 1)"

text \<open>
  \<open>calls_ok\<close>: every application window made has \<^verbatim>\<open>onClose\<close> connected, and every
  connect request was made with the \<^verbatim>\<open>"uri"\<close> property that \<^verbatim>\<open>activate\<close> sets.
\<close>

fun call_ok :: "ptr list \<Rightarrow> lib_call \<Rightarrow> bool" where
  "call_ok hs (Gtk_application_window_new app p) = (p \<in> set hs)"
| "call_ok hs (Spice_session_connect s u) = (u = Some ''spice://localhost?port=5900'')"
| "call_ok hs _ = True"

definition calls_ok :: "world \<Rightarrow> bool" where
  "calls_ok w \<longleftrightarrow> (\<forall>c \<in> set (calls w). call_ok (destroy_handlers w) c)"

text \<open>\<open>usb_follows_display\<close>: as many USB-redirection widgets as display widgets.\<close>

definition usb_follows_display :: "world \<Rightarrow> bool" where
  "usb_follows_display w \<longleftrightarrow> usb_widgets_created w = displays_created w"

text \<open>
  \<open>only_disconnects s n base\<close>: the allocator has passed \<open>n\<close>, and the requests made on
  session \<open>s\<close> are \<open>base\<close> followed by disconnect requests only.
\<close>

definition only_disconnects :: "ptr \<Rightarrow> nat \<Rightarrow> lib_call list \<Rightarrow> world \<Rightarrow> bool" where
  "only_disconnects s n base w \<longleftrightarrow>
     n \<le> next_ptr w \<and>
     (\<exists>j. session_requests s w = base @ replicate j (Spice_session_disconnect s))"

text \<open>
  \<open>latest_session\<close>: once a session exists, the global \<open>spiceSession\<close> is the one
  \<^verbatim>\<open>activate\<close> made last.
\<close>

definition latest_session :: "world \<Rightarrow> bool" where
  "latest_session w \<longleftrightarrow>
     channel_new_handlers w = [] \<or> spiceSession w = last (channel_new_handlers w)"

section \<open>Properties\<close>

subsection \<open>The callbacks in closed form\<close>

lemma connections_distinct:
  "distinct hs \<Longrightarrow> x \<in> set hs \<Longrightarrow> connections x hs = 1"
  unfolding connections_def by (induction hs) (auto simp: filter_empty_conv)

lemma connections_pos: "x \<in> set hs \<Longrightarrow> 0 < connections x hs"
  unfolding connections_def by (induction hs) auto

lemma fold_preserves:
  assumes "P w" and "\<And>v. P v \<Longrightarrow> P (f v)"
  shows "P (fold (\<lambda>_. f) xs w)"
  using assms(1) by (induction xs arbitrary: w) (auto intro: assms(2))

lemma onClose_eq:
  "onClose w = w\<lparr>calls := calls w @ [Spice_session_disconnect (spiceSession w)]\<rparr>"
  by (simp add: onClose_def invoke_def)

lemma fold_onClose:
  "fold (\<lambda>_. onClose) xs w =
     w\<lparr>calls := calls w @ replicate (length xs) (Spice_session_disconnect (spiceSession w))\<rparr>"
proof (induction xs arbitrary: w)
  case Nil
  show ?case by simp
next
  case (Cons x xs)
  have "fold (\<lambda>_. onClose) (x # xs) w = fold (\<lambda>_. onClose) xs (onClose w)"
    by simp
  also have "\<dots> = (onClose w)\<lparr>calls := calls (onClose w) @
      replicate (length xs) (Spice_session_disconnect (spiceSession (onClose w)))\<rparr>"
    by (rule Cons.IH)
  also have "\<dots> = w\<lparr>calls := calls w @
      replicate (length (x # xs)) (Spice_session_disconnect (spiceSession w))\<rparr>"
    by (simp add: onClose_eq)
  finally show ?case .
qed

lemma emit_destroy_eq:
  "emit_destroy inst w =
     w\<lparr>calls := calls w @
        replicate (connections inst (destroy_handlers w))
          (Spice_session_disconnect (spiceSession w))\<rparr>"
  by (simp add: emit_destroy_def fold_onClose connections_def)

lemma channelEvent_other:
  "ev \<noteq> SPICE_CHANNEL_ERROR_CONNECT \<Longrightarrow> channelEvent ch ev w = w"
  by (simp add: channelEvent_def)

lemma channelEvent_error_connect:
  "channelEvent ch SPICE_CHANNEL_ERROR_CONNECT w =
     w\<lparr>calls := calls w @
        [Printf (''SPICE_CHANNEL_ERROR_CONNECT'' @ newline) [],
         G_signal_emit_by_name (window w) ''destroy''] @
        replicate (connections (window w) (destroy_handlers w))
          (Spice_session_disconnect (spiceSession w))\<rparr>"
  by (simp add: channelEvent_def emit_destroy_eq invoke_def Let_def)

lemma channelEvent_teardown:
  "connections (window w) (destroy_handlers w) = 1 \<Longrightarrow>
   channelEvent ch SPICE_CHANNEL_ERROR_CONNECT w = w\<lparr>calls := calls w @ teardown_calls w\<rparr>"
  by (simp add: channelEvent_error_connect teardown_calls_def)

lemma fold_channelEvent_teardown:
  "connections (window w) (destroy_handlers w) = 1 \<Longrightarrow>
   fold (\<lambda>_. channelEvent ch SPICE_CHANNEL_ERROR_CONNECT) xs w =
     w\<lparr>calls := calls w @ concat (replicate (length xs) (teardown_calls w))\<rparr>"
proof (induction xs arbitrary: w)
  case Nil
  show ?case by simp
next
  case (Cons x xs)
  have "fold (\<lambda>_. channelEvent ch SPICE_CHANNEL_ERROR_CONNECT) (x # xs) w =
        fold (\<lambda>_. channelEvent ch SPICE_CHANNEL_ERROR_CONNECT) xs
          (w\<lparr>calls := calls w @ teardown_calls w\<rparr>)"
    using Cons.prems by (simp add: channelEvent_teardown)
  also have "\<dots> = w\<lparr>calls := calls w @ teardown_calls w @
                 concat (replicate (length xs) (teardown_calls w))\<rparr>"
    using Cons.prems by (subst Cons.IH) (simp_all add: teardown_calls_def)
  finally show ?case by simp
qed

lemma fold_id: "(\<And>v. f v = v) \<Longrightarrow> fold (\<lambda>_. f) xs w = w"
  by (induction xs) auto

lemma dispatch_channel_event_other:
  "ev \<noteq> SPICE_CHANNEL_ERROR_CONNECT \<Longrightarrow> dispatch (Channel_event ch ev) w = w"
  by (simp add: fold_id channelEvent_other)

lemma dispatch_channel_event_unconnected:
  "ch \<notin> set (channel_event_handlers w) \<Longrightarrow> dispatch (Channel_event ch ev) w = w"
proof -
  assume "ch \<notin> set (channel_event_handlers w)"
  then have "filter (\<lambda>c. c = ch) (channel_event_handlers w) = []"
    by (induction "channel_event_handlers w") (auto simp: filter_empty_conv)
  then show ?thesis by simp
qed

lemma dispatch_channel_event_teardown:
  "connections (window w) (destroy_handlers w) = 1 \<Longrightarrow>
   dispatch (Channel_event ch SPICE_CHANNEL_ERROR_CONNECT) w =
     w\<lparr>calls := calls w @
        concat (replicate (connections ch (channel_event_handlers w)) (teardown_calls w))\<rparr>"
  by (simp add: fold_channelEvent_teardown connections_def)

lemma newChannel_display:
  "channel_type ch = 2 \<Longrightarrow> newChannel s ch w =
     w\<lparr>next_ptr := Suc (Suc (Suc (next_ptr w))),
       calls := calls w @
        [Printf (''%d: %s'' @ newline) [Int_arg 2, Type_name 2],
         Spice_display_new s (channel_id ch) (next_ptr w),
         Gtk_container_add (window w) (next_ptr w),
         Gtk_widget_show_all (window w),
         Gtk_window_new (Suc (next_ptr w)),
         Gtk_window_set_title (Suc (next_ptr w)) ''USB redirection'',
         Spice_usb_device_widget_new s ''%s %s %s at %d-%d'' (Suc (Suc (next_ptr w))),
         Gtk_container_add (Suc (next_ptr w)) (Suc (Suc (next_ptr w))),
         Gtk_widget_show_all (Suc (next_ptr w))]\<rparr>"
  by (simp add: newChannel_def spice_display_new_def gtk_window_new_def
      spice_usb_device_widget_new_def fresh_def invoke_def Let_def)

lemma newChannel_main:
  "channel_type ch = 1 \<Longrightarrow> newChannel s ch w =
     w\<lparr>channel_event_handlers := channel_event_handlers w @ [ch],
       calls := calls w @ [Printf (''%d: %s'' @ newline) [Int_arg 1, Type_name 1]]\<rparr>"
  by (simp add: newChannel_def invoke_def Let_def)

lemma newChannel_other:
  "channel_type ch \<noteq> 1 \<Longrightarrow> channel_type ch \<noteq> 2 \<Longrightarrow> newChannel s ch w =
     w\<lparr>calls := calls w @
        [Printf (''%d: %s'' @ newline) [Int_arg (channel_type ch), Type_name (channel_type ch)]]\<rparr>"
  by (simp add: newChannel_def invoke_def Let_def)

lemma activate_eq:
  "activate app w =
     w\<lparr>window := next_ptr w, spiceSession := Suc (next_ptr w),
       next_ptr := Suc (Suc (next_ptr w)),
       destroy_handlers := destroy_handlers w @ [next_ptr w],
       channel_new_handlers := channel_new_handlers w @ [Suc (next_ptr w)],
       properties := ((Suc (next_ptr w), ''uri''), ''spice://localhost?port=5900'') # properties w,
       calls := calls w @
        [Gtk_application_window_new app (next_ptr w),
         Gtk_window_set_title (next_ptr w) ''VM Viewer'',
         Gtk_window_set_default_size (next_ptr w) 800 600,
         Spice_session_new (Suc (next_ptr w)),
         G_object_set_property (Suc (next_ptr w)) ''uri'' ''spice://localhost?port=5900'',
         Spice_session_connect (Suc (next_ptr w)) (Some ''spice://localhost?port=5900'')]\<rparr>"
  by (simp add: activate_def gtk_application_window_new_def spice_session_new_def
      g_object_set_property_def spice_session_connect_def fresh_def invoke_def Let_def)

lemma startup_eq:
  "startup = \<lparr> window = NULL, spiceSession = NULL, next_ptr = 2,
     activate_handlers = [1], destroy_handlers = [], channel_new_handlers = [],
     channel_event_handlers = [], properties = [],
     calls = [Gtk_application_new ''org.gtk.example'' 1] \<rparr>"
  by (simp add: startup_def gtk_application_new_def fresh_def invoke_def init_world_def)

lemma channel_new_handlers_newChannel:
  "channel_new_handlers (newChannel s ch w) = channel_new_handlers w"
  by (cases "channel_type ch = 1"; cases "channel_type ch = 2")
     (simp_all add: newChannel_main newChannel_display newChannel_other)

lemma dispatch_preserves:
  assumes "P w"
    and "\<And>app v. P v \<Longrightarrow> P (activate app v)"
    and "\<And>s ch v. P v \<Longrightarrow> channel_new_handlers v \<noteq> [] \<Longrightarrow> P (newChannel s ch v)"
    and "\<And>ch ev v. P v \<Longrightarrow> P (channelEvent ch ev v)"
    and "\<And>v. P v \<Longrightarrow> P (onClose v)"
  shows "P (dispatch e w)"
proof (cases e)
  case (App_activate app)
  then show ?thesis
    using assms(1,2) by (simp add: fold_preserves)
next
  case (Channel_new s ch)
  show ?thesis
  proof (cases "filter (\<lambda>p. p = s) (channel_new_handlers w) = []")
    case True
    then show ?thesis using assms(1) Channel_new by simp
  next
    case False
    then have ne: "channel_new_handlers w \<noteq> []" by auto
    have "(\<lambda>v. P v \<and> channel_new_handlers v \<noteq> [])
            (fold (\<lambda>_. newChannel s ch) (filter (\<lambda>p. p = s) (channel_new_handlers w)) w)"
      by (rule fold_preserves) (simp_all add: assms(1,3) ne channel_new_handlers_newChannel)
    then show ?thesis using Channel_new by simp
  qed
next
  case (Channel_event ch ev)
  then show ?thesis
    using assms(1,4) by (simp add: fold_preserves)
next
  case (Widget_destroy p)
  then show ?thesis
    using assms(1,5) by (simp add: emit_destroy_def fold_preserves)
qed

lemma run_preserves:
  assumes "P w" and "\<And>e v. P v \<Longrightarrow> P (dispatch e v)"
  shows "P (run evs w)"
  using assms(1) by (induction evs arbitrary: w) (auto intro: assms(2))

subsection \<open>Invariants hold in every state of a run\<close>

lemma world_ok_startup: "world_ok startup"
  by (simp add: world_ok_def startup_eq NULL_def)

lemma world_ok_onClose: "world_ok w \<Longrightarrow> world_ok (onClose w)"
  by (simp add: world_ok_def onClose_eq)

lemma world_ok_channelEvent: "world_ok w \<Longrightarrow> world_ok (channelEvent ch ev w)"
  by (cases "ev = SPICE_CHANNEL_ERROR_CONNECT")
     (simp_all add: world_ok_def channelEvent_other channelEvent_error_connect)

lemma world_ok_activate: "world_ok w \<Longrightarrow> world_ok (activate app w)"
  unfolding world_ok_def activate_eq NULL_def by (auto split: if_splits)

lemma world_ok_newChannel:
  "world_ok w \<Longrightarrow> channel_new_handlers w \<noteq> [] \<Longrightarrow> world_ok (newChannel s ch w)"
proof -
  assume a: "world_ok w" "channel_new_handlers w \<noteq> []"
  consider "channel_type ch = 1" | "channel_type ch = 2"
    | "channel_type ch \<noteq> 1" "channel_type ch \<noteq> 2" by blast
  then show ?thesis
  proof cases
    case 1
    then show ?thesis using a unfolding world_ok_def by (auto simp: newChannel_main split: if_splits)
  next
    case 2
    then show ?thesis using a unfolding world_ok_def by (auto simp: newChannel_display split: if_splits)
  next
    case 3
    then show ?thesis using a unfolding world_ok_def by (auto simp: newChannel_other split: if_splits)
  qed
qed

lemma world_ok_dispatch: "world_ok w \<Longrightarrow> world_ok (dispatch e w)"
  by (rule dispatch_preserves)
     (simp_all add: world_ok_onClose world_ok_channelEvent world_ok_activate world_ok_newChannel)

lemma world_ok_running: "world_ok (running argv evs)"
  unfolding running_def g_application_run_def
  by (rule run_preserves) (simp_all add: world_ok_startup world_ok_dispatch)

lemma world_ok_window_connected_once:
  "world_ok w \<Longrightarrow> destroy_handlers w \<noteq> [] \<Longrightarrow> connections (window w) (destroy_handlers w) = 1"
  by (auto simp: world_ok_def connections_distinct)

lemma world_ok_handlers_nonempty:
  "world_ok w \<Longrightarrow> ch \<in> set (channel_event_handlers w) \<Longrightarrow> destroy_handlers w \<noteq> []"
  by (auto simp: world_ok_def split: if_splits)

lemma calls_ok_startup: "calls_ok startup"
  by (simp add: calls_ok_def startup_eq)

lemma call_ok_mono: "call_ok hs c \<Longrightarrow> call_ok (hs @ hs') c"
  by (cases c) auto

lemma calls_ok_onClose: "calls_ok w \<Longrightarrow> calls_ok (onClose w)"
  by (auto simp: calls_ok_def onClose_eq)

lemma calls_ok_channelEvent: "calls_ok w \<Longrightarrow> calls_ok (channelEvent ch ev w)"
  by (cases "ev = SPICE_CHANNEL_ERROR_CONNECT")
     (auto simp: calls_ok_def channelEvent_other channelEvent_error_connect)

lemma calls_ok_activate: "calls_ok w \<Longrightarrow> calls_ok (activate app w)"
  unfolding calls_ok_def activate_eq by (auto intro: call_ok_mono)

lemma calls_ok_newChannel: "calls_ok w \<Longrightarrow> calls_ok (newChannel s ch w)"
  by (cases "channel_type ch = 1"; cases "channel_type ch = 2")
     (auto simp: calls_ok_def newChannel_main newChannel_display newChannel_other)

lemma calls_ok_dispatch: "calls_ok w \<Longrightarrow> calls_ok (dispatch e w)"
  by (rule dispatch_preserves)
     (simp_all add: calls_ok_onClose calls_ok_channelEvent calls_ok_activate calls_ok_newChannel)

lemma calls_ok_running: "calls_ok (running argv evs)"
  unfolding running_def g_application_run_def
  by (rule run_preserves) (simp_all add: calls_ok_startup calls_ok_dispatch)

lemma main_c_eq:
  "main_c argv evs = invoke (G_object_unref 1) (running argv evs)"
  by (simp add: main_c_def running_def startup_def gtk_application_new_def fresh_def
      init_world_def Let_def)

subsection \<open>Counting widgets\<close>

lemma usb_newChannel:
  "usb_widgets_created (newChannel s ch w) =
     usb_widgets_created w + (if channel_type ch = 2 then 1 else 0)"
  by (cases "channel_type ch = 1"; cases "channel_type ch = 2")
     (simp_all add: usb_widgets_created_def newChannel_main newChannel_display newChannel_other)

lemma displays_newChannel:
  "displays_created (newChannel s ch w) =
     displays_created w + (if channel_type ch = 2 then 1 else 0)"
  by (cases "channel_type ch = 1"; cases "channel_type ch = 2")
     (simp_all add: displays_created_def newChannel_main newChannel_display newChannel_other)

lemma displays_for_newChannel:
  "displays_created_for s n (newChannel s' ch w) =
     displays_created_for s n w +
       (if channel_type ch = 2 \<and> s' = s \<and> channel_id ch = n then 1 else 0)"
  by (cases "channel_type ch = 1"; cases "channel_type ch = 2")
     (simp_all add: displays_created_for_def newChannel_main newChannel_display
        newChannel_other)


lemma usb_follows_display_startup: "usb_follows_display startup"
  by (simp add: usb_follows_display_def usb_widgets_created_def displays_created_def startup_eq)

lemma usb_follows_display_dispatch:
  "usb_follows_display w \<Longrightarrow> usb_follows_display (dispatch e w)"
proof (rule dispatch_preserves)
  fix app v assume "usb_follows_display v"
  then show "usb_follows_display (activate app v)"
    by (simp add: usb_follows_display_def usb_widgets_created_def displays_created_def
        activate_eq)
next
  fix s ch v assume "usb_follows_display v"
  then show "usb_follows_display (newChannel s ch v)"
    by (simp add: usb_follows_display_def usb_newChannel displays_newChannel)
next
  fix ch ev v assume "usb_follows_display v"
  then show "usb_follows_display (channelEvent ch ev v)"
    by (cases "ev = SPICE_CHANNEL_ERROR_CONNECT")
       (simp_all add: usb_follows_display_def usb_widgets_created_def displays_created_def
          channelEvent_other channelEvent_error_connect)
next
  fix v assume "usb_follows_display v"
  then show "usb_follows_display (onClose v)"
    by (simp add: usb_follows_display_def usb_widgets_created_def displays_created_def
        onClose_eq)
qed

lemma usb_follows_display_running: "usb_follows_display (running argv evs)"
  unfolding running_def g_application_run_def
  by (rule run_preserves) (simp_all add: usb_follows_display_startup usb_follows_display_dispatch)

subsection \<open>A session is never connected again\<close>


lemma only_disconnects_onClose:
  "only_disconnects s n base w \<Longrightarrow> only_disconnects s n base (onClose w)"
proof -
  assume a: "only_disconnects s n base w"
  then obtain j where j: "session_requests s w = base @ replicate j (Spice_session_disconnect s)"
    by (auto simp: only_disconnects_def)
  show ?thesis
  proof (cases "spiceSession w = s")
    case True
    then have "session_requests s (onClose w) =
        base @ replicate (Suc j) (Spice_session_disconnect s)"
      using j by (simp add: session_requests_def onClose_eq replicate_append_same)
    moreover have "n \<le> next_ptr (onClose w)"
      using a by (simp add: only_disconnects_def onClose_eq)
    ultimately show ?thesis unfolding only_disconnects_def by blast
  next
    case False
    then have "session_requests s (onClose w) = session_requests s w"
      by (simp add: session_requests_def onClose_eq)
    then show ?thesis using a by (simp add: only_disconnects_def onClose_eq)
  qed
qed


lemma only_disconnects_fold_onClose:
  "only_disconnects s n base w \<Longrightarrow> only_disconnects s n base (fold (\<lambda>_. onClose) xs w)"
  by (rule fold_preserves) (simp_all add: only_disconnects_onClose)

lemma session_requests_invoke_other:
  "\<not> is_session_request s c \<Longrightarrow> session_requests s (invoke c w) = session_requests s w"
  by (simp add: session_requests_def invoke_def)

lemma only_disconnects_invoke_other:
  "\<not> is_session_request s c \<Longrightarrow> only_disconnects s n base w \<Longrightarrow>
   only_disconnects s n base (invoke c w)"
  by (simp add: only_disconnects_def session_requests_invoke_other) (simp add: invoke_def)

lemma only_disconnects_channelEvent:
  "only_disconnects s n base w \<Longrightarrow> only_disconnects s n base (channelEvent ch ev w)"
  by (simp add: channelEvent_def Let_def emit_destroy_def only_disconnects_fold_onClose
      only_disconnects_invoke_other)

lemma only_disconnects_newChannel:
  "only_disconnects s n base w \<Longrightarrow> only_disconnects s n base (newChannel s' ch w)"
  by (cases "channel_type ch = 1"; cases "channel_type ch = 2")
     (auto simp: only_disconnects_def session_requests_def newChannel_main newChannel_display
        newChannel_other)

lemma only_disconnects_activate:
  "s < n \<Longrightarrow> only_disconnects s n base w \<Longrightarrow> only_disconnects s n base (activate app w)"
  by (auto simp: only_disconnects_def session_requests_def activate_eq)

lemma only_disconnects_dispatch:
  "s < n \<Longrightarrow> only_disconnects s n base w \<Longrightarrow> only_disconnects s n base (dispatch e w)"
  by (rule dispatch_preserves)
     (simp_all add: only_disconnects_onClose only_disconnects_channelEvent
        only_disconnects_newChannel only_disconnects_activate)

lemma only_disconnects_run:
  "s < n \<Longrightarrow> only_disconnects s n base w \<Longrightarrow> only_disconnects s n base (run evs w)"
  by (rule run_preserves) (simp_all add: only_disconnects_dispatch)

lemma never_connected_again:
  assumes "s < next_ptr w"
  shows "\<exists>j. session_requests s (run evs w) =
           session_requests s w @ replicate j (Spice_session_disconnect s)"
proof -
  have "only_disconnects s (next_ptr w) (session_requests s w) w"
    unfolding only_disconnects_def by (auto intro: exI [of _ 0])
  then have "only_disconnects s (next_ptr w) (session_requests s w) (run evs w)"
    using assms by (simp add: only_disconnects_run)
  then show ?thesis by (simp add: only_disconnects_def)
qed

subsection \<open>Concrete runs\<close>

lemmas eval_simps =
  running_def g_application_run_def startup_eq activate_eq newChannel_def
  spice_display_new_def gtk_window_new_def spice_usb_device_widget_new_def
  channelEvent_def emit_destroy_def onClose_def invoke_def fresh_def Let_def NULL_def
  newline_def

lemma example_activated:
  "running [] [App_activate 1] =
     \<lparr>window = 2, spiceSession = 3, next_ptr = 4, activate_handlers = [1],
      destroy_handlers = [2], channel_new_handlers = [3], channel_event_handlers = [],
      properties = [((3, ''uri''), ''spice://localhost?port=5900'')],
      calls =
       [Gtk_application_new ''org.gtk.example'' 1,
        Gtk_application_window_new 1 2, Gtk_window_set_title 2 ''VM Viewer'',
        Gtk_window_set_default_size 2 800 600, Spice_session_new 3,
        G_object_set_property 3 ''uri'' ''spice://localhost?port=5900'',
        Spice_session_connect 3 (Some ''spice://localhost?port=5900'')]\<rparr>"
  by (simp add: eval_simps)

lemma example_main_announced:
  "running [] [App_activate 1, Channel_new 3 (Channel 0 1 0)] =
     \<lparr>window = 2, spiceSession = 3, next_ptr = 4, activate_handlers = [1],
      destroy_handlers = [2], channel_new_handlers = [3],
      channel_event_handlers = [Channel 0 1 0],
      properties = [((3, ''uri''), ''spice://localhost?port=5900'')],
      calls =
       [Gtk_application_new ''org.gtk.example'' 1,
        Gtk_application_window_new 1 2, Gtk_window_set_title 2 ''VM Viewer'',
        Gtk_window_set_default_size 2 800 600, Spice_session_new 3,
        G_object_set_property 3 ''uri'' ''spice://localhost?port=5900'',
        Spice_session_connect 3 (Some ''spice://localhost?port=5900''),
        Printf (''%d: %s'' @ [CHR 0x0A]) [Int_arg 1, Type_name 1]]\<rparr>"
  by (simp add: eval_simps)

lemma example_display_announced:
  "running [] [App_activate 1, Channel_new 3 (Channel 1 2 2)] =
     \<lparr>window = 2, spiceSession = 3, next_ptr = 7, activate_handlers = [1],
      destroy_handlers = [2], channel_new_handlers = [3],
      channel_event_handlers = [],
      properties = [((3, ''uri''), ''spice://localhost?port=5900'')],
      calls =
       [Gtk_application_new ''org.gtk.example'' 1,
        Gtk_application_window_new 1 2, Gtk_window_set_title 2 ''VM Viewer'',
        Gtk_window_set_default_size 2 800 600, Spice_session_new 3,
        G_object_set_property 3 ''uri'' ''spice://localhost?port=5900'',
        Spice_session_connect 3 (Some ''spice://localhost?port=5900''),
        Printf (''%d: %s'' @ [CHR 0x0A]) [Int_arg 2, Type_name 2],
        Spice_display_new 3 2 4, Gtk_container_add 2 4, Gtk_widget_show_all 2,
        Gtk_window_new 5, Gtk_window_set_title 5 ''USB redirection'',
        Spice_usb_device_widget_new 3 ''%s %s %s at %d-%d'' 6,
        Gtk_container_add 5 6, Gtk_widget_show_all 5]\<rparr>"
  by (simp add: eval_simps)

lemma filter_requests_teardown:
  "filter (is_session_request (spiceSession w)) (concat (replicate k (teardown_calls w))) =
     replicate k (Spice_session_disconnect (spiceSession w))"
  by (induction k) (simp_all add: teardown_calls_def)

lemma example_main_and_display:
  "running [] [App_activate 1, Channel_new 3 (Channel 0 1 0), Channel_new 3 (Channel 1 2 0)] =
     \<lparr>window = 2, spiceSession = 3, next_ptr = 7, activate_handlers = [1],
      destroy_handlers = [2], channel_new_handlers = [3],
      channel_event_handlers = [Channel 0 1 0],
      properties = [((3, ''uri''), ''spice://localhost?port=5900'')],
      calls =
       [Gtk_application_new ''org.gtk.example'' 1,
        Gtk_application_window_new 1 2, Gtk_window_set_title 2 ''VM Viewer'',
        Gtk_window_set_default_size 2 800 600, Spice_session_new 3,
        G_object_set_property 3 ''uri'' ''spice://localhost?port=5900'',
        Spice_session_connect 3 (Some ''spice://localhost?port=5900''),
        Printf (''%d: %s'' @ [CHR 0x0A]) [Int_arg 1, Type_name 1],
        Printf (''%d: %s'' @ [CHR 0x0A]) [Int_arg 2, Type_name 2],
        Spice_display_new 3 0 4, Gtk_container_add 2 4, Gtk_widget_show_all 2,
        Gtk_window_new 5, Gtk_window_set_title 5 ''USB redirection'',
        Spice_usb_device_widget_new 3 ''%s %s %s at %d-%d'' 6,
        Gtk_container_add 5 6, Gtk_widget_show_all 5]\<rparr>"
  by (simp add: eval_simps)

lemma example_two_displays:
  "running [] [App_activate 1, Channel_new 3 (Channel 1 2 0), Channel_new 3 (Channel 2 2 1)] =
     \<lparr>window = 2, spiceSession = 3, next_ptr = 10, activate_handlers = [1],
      destroy_handlers = [2], channel_new_handlers = [3],
      channel_event_handlers = [],
      properties = [((3, ''uri''), ''spice://localhost?port=5900'')],
      calls =
       [Gtk_application_new ''org.gtk.example'' 1,
        Gtk_application_window_new 1 2, Gtk_window_set_title 2 ''VM Viewer'',
        Gtk_window_set_default_size 2 800 600, Spice_session_new 3,
        G_object_set_property 3 ''uri'' ''spice://localhost?port=5900'',
        Spice_session_connect 3 (Some ''spice://localhost?port=5900''),
        Printf (''%d: %s'' @ [CHR 0x0A]) [Int_arg 2, Type_name 2],
        Spice_display_new 3 0 4, Gtk_container_add 2 4, Gtk_widget_show_all 2,
        Gtk_window_new 5, Gtk_window_set_title 5 ''USB redirection'',
        Spice_usb_device_widget_new 3 ''%s %s %s at %d-%d'' 6,
        Gtk_container_add 5 6, Gtk_widget_show_all 5,
        Printf (''%d: %s'' @ [CHR 0x0A]) [Int_arg 2, Type_name 2],
        Spice_display_new 3 1 7, Gtk_container_add 2 7, Gtk_widget_show_all 2,
        Gtk_window_new 8, Gtk_window_set_title 8 ''USB redirection'',
        Spice_usb_device_widget_new 3 ''%s %s %s at %d-%d'' 9,
        Gtk_container_add 8 9, Gtk_widget_show_all 8]\<rparr>"
  by (simp add: eval_simps)

lemma example_usbredir_announced:
  "running [] [App_activate 1, Channel_new 3 (Channel 1 9 0)] =
     \<lparr>window = 2, spiceSession = 3, next_ptr = 4, activate_handlers = [1],
      destroy_handlers = [2], channel_new_handlers = [3],
      channel_event_handlers = [],
      properties = [((3, ''uri''), ''spice://localhost?port=5900'')],
      calls =
       [Gtk_application_new ''org.gtk.example'' 1,
        Gtk_application_window_new 1 2, Gtk_window_set_title 2 ''VM Viewer'',
        Gtk_window_set_default_size 2 800 600, Spice_session_new 3,
        G_object_set_property 3 ''uri'' ''spice://localhost?port=5900'',
        Spice_session_connect 3 (Some ''spice://localhost?port=5900''),
        Printf (''%d: %s'' @ [CHR 0x0A]) [Int_arg 9, Type_name 9]]\<rparr>"
  by (simp add: eval_simps)

lemma example_display_twice:
  "running [] [App_activate 1, Channel_new 3 (Channel 1 2 0), Channel_new 3 (Channel 1 2 0)] =
     \<lparr>window = 2, spiceSession = 3, next_ptr = 10, activate_handlers = [1],
      destroy_handlers = [2], channel_new_handlers = [3],
      channel_event_handlers = [],
      properties = [((3, ''uri''), ''spice://localhost?port=5900'')],
      calls =
       [Gtk_application_new ''org.gtk.example'' 1,
        Gtk_application_window_new 1 2, Gtk_window_set_title 2 ''VM Viewer'',
        Gtk_window_set_default_size 2 800 600, Spice_session_new 3,
        G_object_set_property 3 ''uri'' ''spice://localhost?port=5900'',
        Spice_session_connect 3 (Some ''spice://localhost?port=5900''),
        Printf (''%d: %s'' @ [CHR 0x0A]) [Int_arg 2, Type_name 2],
        Spice_display_new 3 0 4, Gtk_container_add 2 4, Gtk_widget_show_all 2,
        Gtk_window_new 5, Gtk_window_set_title 5 ''USB redirection'',
        Spice_usb_device_widget_new 3 ''%s %s %s at %d-%d'' 6,
        Gtk_container_add 5 6, Gtk_widget_show_all 5,
        Printf (''%d: %s'' @ [CHR 0x0A]) [Int_arg 2, Type_name 2],
        Spice_display_new 3 0 7, Gtk_container_add 2 7, Gtk_widget_show_all 2,
        Gtk_window_new 8, Gtk_window_set_title 8 ''USB redirection'',
        Spice_usb_device_widget_new 3 ''%s %s %s at %d-%d'' 9,
        Gtk_container_add 8 9, Gtk_widget_show_all 8]\<rparr>"
  by (simp add: eval_simps)

subsection \<open>A Main channel that is announced is listened to\<close>

text \<open>
  Once \<^verbatim>\<open>"channel-new"\<close> of a session that \<^verbatim>\<open>activate\<close> made has been delivered for a channel
  of type 1, \<^verbatim>\<open>channelEvent\<close> is connected to that channel, and stays so.
\<close>

lemma listened_newChannel:
  "ch \<in> set (channel_event_handlers w) \<Longrightarrow>
   ch \<in> set (channel_event_handlers (newChannel s c w))"
  by (cases "channel_type c = 1"; cases "channel_type c = 2")
     (simp_all add: newChannel_main newChannel_display newChannel_other)

lemma listened_dispatch:
  "ch \<in> set (channel_event_handlers w) \<Longrightarrow>
   ch \<in> set (channel_event_handlers (dispatch e w))"
proof (rule dispatch_preserves)
  fix app and v :: world assume "ch \<in> set (channel_event_handlers v)"
  then show "ch \<in> set (channel_event_handlers (activate app v))"
    by (simp add: activate_eq)
next
  fix s c and v :: world assume "ch \<in> set (channel_event_handlers v)"
  then show "ch \<in> set (channel_event_handlers (newChannel s c v))"
    by (rule listened_newChannel)
next
  fix c ev and v :: world assume "ch \<in> set (channel_event_handlers v)"
  then show "ch \<in> set (channel_event_handlers (channelEvent c ev v))"
    by (cases "ev = SPICE_CHANNEL_ERROR_CONNECT")
       (simp_all add: channelEvent_other channelEvent_error_connect)
next
  fix v :: world assume "ch \<in> set (channel_event_handlers v)"
  then show "ch \<in> set (channel_event_handlers (onClose v))"
    by (simp add: onClose_eq)
qed

lemma main_channel_is_listened_to:
  assumes "channel_type ch = 1" and "s \<in> set (channel_new_handlers w)"
  shows "ch \<in> set (channel_event_handlers (run later (dispatch (Channel_new s ch) w)))"
proof -
  from assms(2) obtain x xs where f: "filter (\<lambda>p. p = s) (channel_new_handlers w) = x # xs"
    by (cases "filter (\<lambda>p. p = s) (channel_new_handlers w)") (auto simp: filter_empty_conv)
  have "ch \<in> set (channel_event_handlers (newChannel s ch w))"
    using assms(1) by (simp add: newChannel_main)
  then have "ch \<in> set (channel_event_handlers (fold (\<lambda>_. newChannel s ch) xs (newChannel s ch w)))"
    by (rule fold_preserves) (rule listened_newChannel)
  then have "ch \<in> set (channel_event_handlers (dispatch (Channel_new s ch) w))"
    by (simp add: f)
  then show ?thesis
    by (rule run_preserves) (rule listened_dispatch)
qed

subsection \<open>The global session is the latest one\<close>

lemma latest_session_startup: "latest_session startup"
  by (simp add: latest_session_def startup_eq)

lemma latest_session_dispatch: "latest_session w \<Longrightarrow> latest_session (dispatch e w)"
proof (rule dispatch_preserves)
  fix app and v :: world assume "latest_session v"
  then show "latest_session (activate app v)"
    by (simp add: latest_session_def activate_eq)
next
  fix s c and v :: world assume "latest_session v"
  then show "latest_session (newChannel s c v)"
    by (cases "channel_type c = 1"; cases "channel_type c = 2")
       (simp_all add: latest_session_def newChannel_main newChannel_display newChannel_other)
next
  fix c ev and v :: world assume "latest_session v"
  then show "latest_session (channelEvent c ev v)"
    by (cases "ev = SPICE_CHANNEL_ERROR_CONNECT")
       (simp_all add: latest_session_def channelEvent_other channelEvent_error_connect)
next
  fix v :: world assume "latest_session v"
  then show "latest_session (onClose v)"
    by (simp add: latest_session_def onClose_eq)
qed

lemma latest_session_running: "latest_session (running argv evs)"
  unfolding running_def g_application_run_def
  by (rule run_preserves) (simp_all add: latest_session_startup latest_session_dispatch)

lemma world_ok_sessions_nonempty:
  "world_ok w \<Longrightarrow> ch \<in> set (channel_event_handlers w) \<Longrightarrow> channel_new_handlers w \<noteq> []"
  by (auto simp: world_ok_def)

lemma example_activated_again:
  "running [] [App_activate 1, Channel_new 3 (Channel 0 1 0), App_activate 1] =
     \<lparr>window = 4, spiceSession = 5, next_ptr = 6, activate_handlers = [1],
      destroy_handlers = [2, 4], channel_new_handlers = [3, 5],
      channel_event_handlers = [Channel 0 1 0],
      properties = [((5, ''uri''), ''spice://localhost?port=5900''),
                    ((3, ''uri''), ''spice://localhost?port=5900'')],
      calls =
       [Gtk_application_new ''org.gtk.example'' 1,
        Gtk_application_window_new 1 2, Gtk_window_set_title 2 ''VM Viewer'',
        Gtk_window_set_default_size 2 800 600, Spice_session_new 3,
        G_object_set_property 3 ''uri'' ''spice://localhost?port=5900'',
        Spice_session_connect 3 (Some ''spice://localhost?port=5900''),
        Printf (''%d: %s'' @ [CHR 0x0A]) [Int_arg 1, Type_name 1],
        Gtk_application_window_new 1 4, Gtk_window_set_title 4 ''VM Viewer'',
        Gtk_window_set_default_size 4 800 600, Spice_session_new 5,
        G_object_set_property 5 ''uri'' ''spice://localhost?port=5900'',
        Spice_session_connect 5 (Some ''spice://localhost?port=5900'')]\<rparr>"
  by (simp add: eval_simps)

section \<open>The claims\<close>

text \<open>
  C1, as stated, fails. It says that every connect-class error on the Main channel, an
  authentication or routing failure before any channel is usable, tears the session
  down. With the Main channel of session 3 announced, \<^verbatim>\<open>SPICE_CHANNEL_ERROR_AUTH\<close>,
  \<^verbatim>\<open>SPICE_CHANNEL_ERROR_TLS\<close> and \<^verbatim>\<open>SPICE_CHANNEL_ERROR_LINK\<close> on it leave the requests made on
  session 3 at the one connect request: no disconnect. And once \<^verbatim>\<open>activate\<close> has run a
  second time, \<^verbatim>\<open>SPICE_CHANNEL_ERROR_CONNECT\<close> on that same channel disconnects session 5,
  which the global then holds, and still not session 3.
\<close>

theorem connect_class_errors_counterexample:
  "session_requests 3
     (dispatch (Channel_event (Channel 0 1 0) SPICE_CHANNEL_ERROR_AUTH)
        (running [] [App_activate 1, Channel_new 3 (Channel 0 1 0)])) =
     [Spice_session_connect 3 (Some ''spice://localhost?port=5900'')] \<and>
   session_requests 3
     (dispatch (Channel_event (Channel 0 1 0) SPICE_CHANNEL_ERROR_TLS)
        (running [] [App_activate 1, Channel_new 3 (Channel 0 1 0)])) =
     [Spice_session_connect 3 (Some ''spice://localhost?port=5900'')] \<and>
   session_requests 3
     (dispatch (Channel_event (Channel 0 1 0) SPICE_CHANNEL_ERROR_LINK)
        (running [] [App_activate 1, Channel_new 3 (Channel 0 1 0)])) =
     [Spice_session_connect 3 (Some ''spice://localhost?port=5900'')] \<and>
   session_requests 3
     (dispatch (Channel_event (Channel 0 1 0) SPICE_CHANNEL_ERROR_CONNECT)
        (running [] [App_activate 1, Channel_new 3 (Channel 0 1 0), App_activate 1])) =
     [Spice_session_connect 3 (Some ''spice://localhost?port=5900'')] \<and>
   session_requests 5
     (dispatch (Channel_event (Channel 0 1 0) SPICE_CHANNEL_ERROR_CONNECT)
        (running [] [App_activate 1, Channel_new 3 (Channel 0 1 0), App_activate 1])) =
     [Spice_session_connect 5 (Some ''spice://localhost?port=5900''),
      Spice_session_disconnect 5]"
  unfolding example_main_announced example_activated_again
  by (simp add: session_requests_def channelEvent_def emit_destroy_def onClose_def
      invoke_def Let_def)

text \<open>
  C1, amended. Of the errors a Main channel can report, \<^verbatim>\<open>channelEvent\<close> acts on
  \<^verbatim>\<open>SPICE_CHANNEL_ERROR_CONNECT\<close> alone, and what it tears down is the session the global
  \<^verbatim>\<open>spiceSession\<close> holds. In every state \<open>w\<close> of a run, if \<^verbatim>\<open>channelEvent\<close> is connected
  to the channel, then the channel is a Main channel (type 1), the global \<^verbatim>\<open>spiceSession\<close>
  is set and is the session \<^verbatim>\<open>activate\<close> made last (the only one when \<^verbatim>\<open>activate\<close> ran
  once), and delivering \<^verbatim>\<open>SPICE_CHANNEL_ERROR_CONNECT\<close> makes the program print its
  message, emit \<^verbatim>\<open>"destroy"\<close> on the window and call
  \<^verbatim>\<open>spice_session_disconnect(spiceSession)\<close>, once per connection of the handler and at
  least once. Whatever events follow, the requests the program makes on that session from
  then on are disconnect requests only: it is never asked to connect again. Any other
  event on the channel, the other error codes included, changes nothing. The session's
  own state lives in the SPICE library; the program's part is the requests it makes.
\<close>

theorem connect_error_tears_session_down:
  assumes "w = running argv evs"
    and "channel \<in> set (channel_event_handlers w)"
  shows "channel_type channel = 1 \<and> spiceSession w \<noteq> NULL \<and>
    spiceSession w = last (channel_new_handlers w) \<and>
    0 < connections channel (channel_event_handlers w) \<and>
    calls (dispatch (Channel_event channel SPICE_CHANNEL_ERROR_CONNECT) w) =
      calls w @ concat (replicate (connections channel (channel_event_handlers w))
                          (teardown_calls w)) \<and>
    (\<forall>later. \<exists>j.
       session_requests (spiceSession w)
         (run later (dispatch (Channel_event channel SPICE_CHANNEL_ERROR_CONNECT) w)) =
       session_requests (spiceSession w) w @
         replicate (Suc j) (Spice_session_disconnect (spiceSession w))) \<and>
    (ev \<noteq> SPICE_CHANNEL_ERROR_CONNECT \<longrightarrow> dispatch (Channel_event channel ev) w = w)"
proof -
  let ?s = "spiceSession w"
  let ?k = "connections channel (channel_event_handlers w)"
  define w' where "w' = dispatch (Channel_event channel SPICE_CHANNEL_ERROR_CONNECT) w"
  define w'' where "w'' = dispatch (Channel_event channel ev) w"
  have world_ok: "world_ok w" using assms(1) by (simp add: world_ok_running)
  have ne: "destroy_handlers w \<noteq> []"
    using world_ok assms(2) by (rule world_ok_handlers_nonempty)
  have once: "connections (window w) (destroy_handlers w) = 1"
    using world_ok ne by (rule world_ok_window_connected_once)
  have type: "channel_type channel = 1"
    using world_ok assms(2) by (simp add: world_ok_def)
  have sess: "?s \<noteq> NULL" "?s < next_ptr w"
    using world_ok ne by (simp_all add: world_ok_def)
  have "channel_new_handlers w \<noteq> []"
    using world_ok assms(2) by (rule world_ok_sessions_nonempty)
  moreover have "latest_session w" using assms(1) by (simp add: latest_session_running)
  ultimately have latest: "?s = last (channel_new_handlers w)"
    by (simp add: latest_session_def)
  have k: "0 < ?k" using assms(2) by (rule connections_pos)
  have w': "w' = w\<lparr>calls := calls w @ concat (replicate ?k (teardown_calls w))\<rparr>"
    unfolding w'_def using once by (rule dispatch_channel_event_teardown)
  have cs: "calls w' = calls w @ concat (replicate ?k (teardown_calls w))"
    by (simp add: w')
  have req: "session_requests ?s w' =
      session_requests ?s w @ replicate ?k (Spice_session_disconnect ?s)"
    by (simp add: cs session_requests_def filter_requests_teardown)
  have later: "\<exists>j. session_requests ?s (run later w') =
      session_requests ?s w @ replicate (Suc j) (Spice_session_disconnect ?s)" for later
  proof -
    have "?s < next_ptr w'" using sess(2) by (simp add: w')
    then obtain i where "session_requests ?s (run later w') =
        session_requests ?s w' @ replicate i (Spice_session_disconnect ?s)"
      using never_connected_again by blast
    then have "session_requests ?s (run later w') =
        session_requests ?s w @ replicate (?k + i) (Spice_session_disconnect ?s)"
      by (simp add: req replicate_add)
    moreover have "?k + i = Suc (?k + i - 1)" using k by simp
    ultimately show ?thesis by metis
  qed
  have other: "ev \<noteq> SPICE_CHANNEL_ERROR_CONNECT \<longrightarrow> w'' = w"
    unfolding w''_def by (rule impI) (rule dispatch_channel_event_other)
  show ?thesis
    using type sess(1) latest k cs later other unfolding w'_def w''_def by blast
qed

text \<open>The statement at a concrete run.\<close>

theorem connect_error_tears_session_down_witness:
  "Channel 0 1 0 \<in> set (channel_event_handlers
       (running [] [App_activate 1, Channel_new 3 (Channel 0 1 0)])) \<and>
   calls (dispatch (Channel_event (Channel 0 1 0) SPICE_CHANNEL_ERROR_CONNECT)
       (running [] [App_activate 1, Channel_new 3 (Channel 0 1 0)])) =
     calls (running [] [App_activate 1, Channel_new 3 (Channel 0 1 0)]) @
       [Printf (''SPICE_CHANNEL_ERROR_CONNECT'' @ [CHR 0x0A]) [],
        G_signal_emit_by_name 2 ''destroy'', Spice_session_disconnect 3]"
  using connect_error_tears_session_down
    [where argv = "[]" and evs = "[App_activate 1, Channel_new 3 (Channel 0 1 0)]"
       and channel = "Channel 0 1 0" and ev = SPICE_CHANNEL_ERROR_CONNECT, OF refl]
  unfolding example_main_announced
  by (simp add: connections_def teardown_calls_def newline_def)

text \<open>
  C2, as stated, fails. It says the USB-redirection widget is created exactly once in a
  session, on the first DeviceRedirection channel-new and on no other kind of channel.
  With two Display channels announced, two USB-redirection widgets have been created; with
  a DeviceRedirection (usbredir, type 9) channel announced and no Display channel, none.
\<close>

theorem usb_widget_counterexample:
  "usb_widgets_created
     (running [] [App_activate 1, Channel_new 3 (Channel 1 2 0), Channel_new 3 (Channel 2 2 1)])
     = 2 \<and>
   usb_widgets_created (running [] [App_activate 1, Channel_new 3 (Channel 1 9 0)]) = 0"
  unfolding example_two_displays example_usbredir_announced
  by (simp add: usb_widgets_created_def)

text \<open>
  C2, amended. \<^verbatim>\<open>newChannel\<close> creates one USB-redirection widget each time it handles a
  channel of type 2 (Display), next to the display widget, and none for a channel of any
  other type; \<^verbatim>\<open>channelEvent\<close> creates none. So in every state of a run there are as many
  USB-redirection widgets as display widgets.
\<close>

theorem usb_widget_with_every_display:
  "usb_widgets_created (newChannel session channel w) =
     usb_widgets_created w + (if channel_type channel = 2 then 1 else 0) \<and>
   usb_widgets_created (channelEvent channel ev w) = usb_widgets_created w \<and>
   usb_widgets_created (running argv evs) = displays_created (running argv evs)"
proof -
  have "usb_follows_display (running argv evs)" by (rule usb_follows_display_running)
  then have "usb_widgets_created (running argv evs) = displays_created (running argv evs)"
    by (simp add: usb_follows_display_def)
  moreover have "usb_widgets_created (channelEvent channel ev w) = usb_widgets_created w"
    by (cases "ev = SPICE_CHANNEL_ERROR_CONNECT")
       (simp_all add: usb_widgets_created_def channelEvent_other channelEvent_error_connect)
  ultimately show ?thesis by (simp add: usb_newChannel)
qed

text \<open>The statement at a concrete run.\<close>

theorem usb_widget_with_every_display_witness:
  "usb_widgets_created (newChannel 3 (Channel 1 2 0) (running [] [App_activate 1])) = 1 \<and>
   usb_widgets_created (newChannel 3 (Channel 1 9 0) (running [] [App_activate 1])) = 0"
  using usb_widget_with_every_display
    [where session = 3 and channel = "Channel 1 2 0" and w = "running [] [App_activate 1]"
       and argv = "[]" and evs = "[]"]
    usb_widget_with_every_display
    [where session = 3 and channel = "Channel 1 9 0" and w = "running [] [App_activate 1]"
       and argv = "[]" and evs = "[]"]
  unfolding example_activated
  by (simp add: usb_widgets_created_def)

text \<open>
  C3, as stated, fails. It says that registering the same (kind, id) twice leaves one
  entry, one display surface. Announcing the same Display channel (type 2, id 0) twice
  creates two display widgets for id 0.
\<close>

theorem duplicate_registration_counterexample:
  "displays_created_for 3 0
     (running [] [App_activate 1, Channel_new 3 (Channel 1 2 0), Channel_new 3 (Channel 1 2 0)])
     = 2"
  unfolding example_display_twice
  by (simp add: displays_created_for_def)

text \<open>
  C3, amended. \<^verbatim>\<open>newChannel\<close> keeps no registry and checks for no duplicate; it cannot
  fail. Handling the same Display channel twice creates two display widgets for its
  session and id, and handling the same Main channel twice connects \<^verbatim>\<open>channelEvent\<close> to it
  twice.
\<close>

theorem every_channel_new_is_handled_afresh:
  "(channel_type channel = 2 \<longrightarrow>
      displays_created_for session (channel_id channel)
        (newChannel session channel (newChannel session channel w)) =
      displays_created_for session (channel_id channel) w + 2) \<and>
   (channel_type channel = 1 \<longrightarrow>
      connections channel
        (channel_event_handlers (newChannel session channel (newChannel session channel w))) =
      connections channel (channel_event_handlers w) + 2)"
  by (simp add: displays_for_newChannel newChannel_main connections_def)

text \<open>The statement at a concrete run.\<close>

theorem every_channel_new_is_handled_afresh_witness:
  "displays_created_for 3 0
     (newChannel 3 (Channel 1 2 0) (newChannel 3 (Channel 1 2 0) (running [] [App_activate 1])))
     = 2 \<and>
   connections (Channel 0 1 0)
     (channel_event_handlers
        (newChannel 3 (Channel 0 1 0) (newChannel 3 (Channel 0 1 0) (running [] [App_activate 1]))))
     = 2"
  using every_channel_new_is_handled_afresh
    [where session = 3 and channel = "Channel 1 2 0" and w = "running [] [App_activate 1]"]
    every_channel_new_is_handled_afresh
    [where session = 3 and channel = "Channel 0 1 0" and w = "running [] [App_activate 1]"]
  unfolding example_activated
  by (simp add: displays_created_for_def connections_def)

text \<open>
  C4. A channel-new whose channel type is neither 1 nor 2 is logged and ignored:
  \<^verbatim>\<open>newChannel\<close> prints the line \<^verbatim>\<open>"%d: %s\n"\<close> for the type and changes nothing else. There
  is no error path.
\<close>

theorem unknown_channel_logged_and_ignored:
  assumes "channel_type channel \<noteq> 1" and "channel_type channel \<noteq> 2"
  shows "newChannel session channel w =
     w\<lparr>calls := calls w @
        [Printf (''%d: %s'' @ newline)
           [Int_arg (channel_type channel), Type_name (channel_type channel)]]\<rparr>"
  using assms by (rule newChannel_other)

text \<open>The statement at a concrete run.\<close>

theorem unknown_channel_logged_and_ignored_witness:
  "channel_type (Channel 7 42 0) \<noteq> 1 \<and> channel_type (Channel 7 42 0) \<noteq> 2 \<and>
   newChannel 3 (Channel 7 42 0) (running [] [App_activate 1]) =
     (running [] [App_activate 1])\<lparr>calls := calls (running [] [App_activate 1]) @
        [Printf (''%d: %s'' @ [CHR 0x0A]) [Int_arg 42, Type_name 42]]\<rparr>"
  using unknown_channel_logged_and_ignored [of "Channel 7 42 0" 3 "running [] [App_activate 1]"]
  by (simp add: newline_def)

text \<open>
  C5, as stated, fails. It says that the close of a Display channel unregisters the
  channel and disposes of its surface, and that no further event for that id is accepted.
  After Display channel id 2 is announced, its \<^verbatim>\<open>SPICE_CHANNEL_CLOSED\<close> event leaves the
  state as it was (nothing is called, nothing is removed), and a further channel-new
  for id 2 is handled: two display widgets for id 2 have then been created.
\<close>

theorem display_close_counterexample:
  "dispatch (Channel_event (Channel 1 2 2) SPICE_CHANNEL_CLOSED)
      (running [] [App_activate 1, Channel_new 3 (Channel 1 2 2)]) =
     running [] [App_activate 1, Channel_new 3 (Channel 1 2 2)] \<and>
   displays_created_for 3 2
     (dispatch (Channel_new 3 (Channel 1 2 2))
        (dispatch (Channel_event (Channel 1 2 2) SPICE_CHANNEL_CLOSED)
           (running [] [App_activate 1, Channel_new 3 (Channel 1 2 2)]))) = 2"
  unfolding example_display_announced
  by (simp add: displays_created_for_def eval_simps)

text \<open>
  C5, amended. A \<^verbatim>\<open>SPICE_CHANNEL_CLOSED\<close> event changes nothing, in any state and for any
  channel: no call is made, so no surface is disposed of and nothing is forgotten. A
  channel-new for the same Display channel after it is handled like any other and creates
  one more display widget for that id.
\<close>

theorem channel_close_is_not_handled:
  "dispatch (Channel_event channel SPICE_CHANNEL_CLOSED) w = w \<and>
   (channel_type channel = 2 \<longrightarrow>
      displays_created_for session (channel_id channel)
        (newChannel session channel (dispatch (Channel_event channel SPICE_CHANNEL_CLOSED) w)) =
      Suc (displays_created_for session (channel_id channel) w))"
proof -
  have "dispatch (Channel_event channel SPICE_CHANNEL_CLOSED) w = w"
    by (rule dispatch_channel_event_other) simp
  then show ?thesis by (simp only: displays_for_newChannel) simp
qed

text \<open>The statement at a concrete run.\<close>

theorem channel_close_is_not_handled_witness:
  "channel_type (Channel 1 2 2) = 2 \<and>
   displays_created_for 3 2
     (newChannel 3 (Channel 1 2 2)
        (dispatch (Channel_event (Channel 1 2 2) SPICE_CHANNEL_CLOSED)
           (running [] [App_activate 1, Channel_new 3 (Channel 1 2 2)]))) = 2"
  using channel_close_is_not_handled
    [where session = 3 and channel = "Channel 1 2 2"
       and w = "running [] [App_activate 1, Channel_new 3 (Channel 1 2 2)]"]
  unfolding example_display_announced
  by (simp add: displays_created_for_def)

text \<open>
  C6, as stated, fails. It says that a Display channel-new seen before the Main channel
  is ready is held back and replayed later. Here no Main channel has been announced, so
  none has reported anything, and the display widget for id 2 has been created already.
\<close>

theorem display_before_main_counterexample:
  "channel_event_handlers (running [] [App_activate 1, Channel_new 3 (Channel 1 2 2)]) = [] \<and>
   displays_created_for 3 2 (running [] [App_activate 1, Channel_new 3 (Channel 1 2 2)]) = 1"
  unfolding example_display_announced
  by (simp add: displays_created_for_def)

text \<open>
  C6, amended. \<^verbatim>\<open>newChannel\<close> acts on a Display channel-new at once, in whatever state it
  is called: it creates the display widget, adds it to the window and shows it, and makes
  the USB-redirection window, all within the call. A DeviceRedirection (usbredir, type 9)
  channel-new is logged only. Nothing is held back, and nothing is replayed later: a
  \<^verbatim>\<open>SPICE_CHANNEL_OPENED\<close> event changes nothing.
\<close>

theorem channel_new_is_acted_on_at_once:
  "(channel_type channel = 2 \<longrightarrow>
      newChannel session channel w =
        w\<lparr>next_ptr := Suc (Suc (Suc (next_ptr w))),
          calls := calls w @
           [Printf (''%d: %s'' @ newline) [Int_arg 2, Type_name 2],
            Spice_display_new session (channel_id channel) (next_ptr w),
            Gtk_container_add (window w) (next_ptr w),
            Gtk_widget_show_all (window w),
            Gtk_window_new (Suc (next_ptr w)),
            Gtk_window_set_title (Suc (next_ptr w)) ''USB redirection'',
            Spice_usb_device_widget_new session ''%s %s %s at %d-%d'' (Suc (Suc (next_ptr w))),
            Gtk_container_add (Suc (next_ptr w)) (Suc (Suc (next_ptr w))),
            Gtk_widget_show_all (Suc (next_ptr w))]\<rparr>) \<and>
   (channel_type channel = SPICE_CHANNEL_USBREDIR \<longrightarrow>
      newChannel session channel w =
        w\<lparr>calls := calls w @
           [Printf (''%d: %s'' @ newline) [Int_arg 9, Type_name 9]]\<rparr>) \<and>
   dispatch (Channel_event channel SPICE_CHANNEL_OPENED) w = w"
proof -
  have "dispatch (Channel_event channel SPICE_CHANNEL_OPENED) w = w"
    by (rule dispatch_channel_event_other) simp
  moreover have "newChannel session channel w =
        w\<lparr>calls := calls w @
           [Printf (''%d: %s'' @ newline) [Int_arg 9, Type_name 9]]\<rparr>"
    if "channel_type channel = SPICE_CHANNEL_USBREDIR"
    using that by (simp add: newChannel_other SPICE_CHANNEL_USBREDIR_def)
  ultimately show ?thesis
    using newChannel_display [of channel session w] by blast
qed

text \<open>The statement at a concrete run.\<close>

theorem channel_new_is_acted_on_at_once_witness:
  "channel_type (Channel 1 2 2) = 2 \<and>
   calls (newChannel 3 (Channel 1 2 2) (running [] [App_activate 1])) =
     calls (running [] [App_activate 1]) @
       [Printf (''%d: %s'' @ [CHR 0x0A]) [Int_arg 2, Type_name 2],
        Spice_display_new 3 2 4, Gtk_container_add 2 4, Gtk_widget_show_all 2,
        Gtk_window_new 5, Gtk_window_set_title 5 ''USB redirection'',
        Spice_usb_device_widget_new 3 ''%s %s %s at %d-%d'' 6,
        Gtk_container_add 5 6, Gtk_widget_show_all 5]"
  using channel_new_is_acted_on_at_once
    [where session = 3 and channel = "Channel 1 2 2" and w = "running [] [App_activate 1]"]
  unfolding example_activated
  by (simp add: newline_def)

text \<open>
  C7, as stated, fails. It says that every fatal (connection-level) channel error tears
  the session down and that every other channel error is reported as a diagnostic. With
  a Main and a Display channel announced, an I/O error on the Main channel leaves the
  state as it was: no teardown and no diagnostic. A connect error on the Display channel
  does the same.
\<close>

theorem fatal_errors_counterexample:
  "dispatch (Channel_event (Channel 0 1 0) SPICE_CHANNEL_ERROR_IO)
      (running [] [App_activate 1, Channel_new 3 (Channel 0 1 0),
                   Channel_new 3 (Channel 1 2 0)]) =
     running [] [App_activate 1, Channel_new 3 (Channel 0 1 0), Channel_new 3 (Channel 1 2 0)]
   \<and>
   dispatch (Channel_event (Channel 1 2 0) SPICE_CHANNEL_ERROR_CONNECT)
      (running [] [App_activate 1, Channel_new 3 (Channel 0 1 0),
                   Channel_new 3 (Channel 1 2 0)]) =
     running [] [App_activate 1, Channel_new 3 (Channel 0 1 0), Channel_new 3 (Channel 1 2 0)]"
  unfolding example_main_and_display
  by (simp add: channelEvent_def)

text \<open>
  C7, amended. In every state of a run, the one channel event that tears the session down
  is \<^verbatim>\<open>SPICE_CHANNEL_ERROR_CONNECT\<close> on a channel \<^verbatim>\<open>channelEvent\<close> is connected to (a Main
  channel): it runs the fatal path once per connection. Every other channel event, error
  or not, leaves the state as it was, with no diagnostic. The program keeps no connection
  state, so this holds whether or not the session is connected.
\<close>

theorem teardown_only_on_main_connect_error:
  assumes "w = running argv evs"
  shows "dispatch (Channel_event channel ev) w =
     (if ev = SPICE_CHANNEL_ERROR_CONNECT \<and> channel \<in> set (channel_event_handlers w)
      then w\<lparr>calls := calls w @
             concat (replicate (connections channel (channel_event_handlers w))
                       (teardown_calls w))\<rparr>
      else w)"
proof (cases "ev = SPICE_CHANNEL_ERROR_CONNECT \<and> channel \<in> set (channel_event_handlers w)")
  case True
  then have ev: "ev = SPICE_CHANNEL_ERROR_CONNECT"
    and mem: "channel \<in> set (channel_event_handlers w)" by simp_all
  have ok: "world_ok w" using assms by (simp add: world_ok_running)
  then have "destroy_handlers w \<noteq> []"
    using mem by (rule world_ok_handlers_nonempty)
  with ok have "connections (window w) (destroy_handlers w) = 1"
    by (rule world_ok_window_connected_once)
  then have "dispatch (Channel_event channel ev) w =
      w\<lparr>calls := calls w @
         concat (replicate (connections channel (channel_event_handlers w))
                   (teardown_calls w))\<rparr>"
    unfolding ev by (rule dispatch_channel_event_teardown)
  also note if_P [OF True, symmetric]
  finally show ?thesis .
next
  case False
  then consider "ev \<noteq> SPICE_CHANNEL_ERROR_CONNECT"
    | "channel \<notin> set (channel_event_handlers w)" by blast
  then have "dispatch (Channel_event channel ev) w = w"
  proof cases
    case 1
    then show ?thesis by (rule dispatch_channel_event_other)
  next
    case 2
    then show ?thesis by (rule dispatch_channel_event_unconnected)
  qed
  also note if_not_P [OF False, symmetric]
  finally show ?thesis .
qed

text \<open>The statement at a concrete run.\<close>

theorem teardown_only_on_main_connect_error_witness:
  "calls (dispatch (Channel_event (Channel 0 1 0) SPICE_CHANNEL_ERROR_CONNECT)
      (running [] [App_activate 1, Channel_new 3 (Channel 0 1 0)])) =
     calls (running [] [App_activate 1, Channel_new 3 (Channel 0 1 0)]) @
       [Printf (''SPICE_CHANNEL_ERROR_CONNECT'' @ [CHR 0x0A]) [],
        G_signal_emit_by_name 2 ''destroy'', Spice_session_disconnect 3] \<and>
   dispatch (Channel_event (Channel 0 1 0) SPICE_CHANNEL_ERROR_AUTH)
      (running [] [App_activate 1, Channel_new 3 (Channel 0 1 0)]) =
     running [] [App_activate 1, Channel_new 3 (Channel 0 1 0)]"
  using teardown_only_on_main_connect_error
    [where argv = "[]" and evs = "[App_activate 1, Channel_new 3 (Channel 0 1 0)]"
       and channel = "Channel 0 1 0" and ev = SPICE_CHANNEL_ERROR_CONNECT, OF refl]
    teardown_only_on_main_connect_error
    [where argv = "[]" and evs = "[App_activate 1, Channel_new 3 (Channel 0 1 0)]"
       and channel = "Channel 0 1 0" and ev = SPICE_CHANNEL_ERROR_AUTH, OF refl]
  unfolding example_main_announced
  by (simp add: connections_def teardown_calls_def newline_def)

text \<open>
  C8. Whatever the command line and whatever events the main loop delivers, every connect
  request the program makes is for a session whose \<^verbatim>\<open>"uri"\<close> is
  \<^verbatim>\<open>"spice://localhost?port=5900"\<close>, during the run and at the end of \<^verbatim>\<open>main\<close>. The
  requests come from \<^verbatim>\<open>activate\<close>, which sets that property on the session it has just made
  and then connects it.
\<close>

theorem connection_target_is_fixed:
  "(Spice_session_connect s u \<in> set (calls (running argv evs)) \<longrightarrow>
      u = Some ''spice://localhost?port=5900'') \<and>
   (Spice_session_connect s u \<in> set (calls (main_c argv evs)) \<longrightarrow>
      u = Some ''spice://localhost?port=5900'') \<and>
   calls (activate app w) = calls w @
     [Gtk_application_window_new app (next_ptr w),
      Gtk_window_set_title (next_ptr w) ''VM Viewer'',
      Gtk_window_set_default_size (next_ptr w) 800 600,
      Spice_session_new (Suc (next_ptr w)),
      G_object_set_property (Suc (next_ptr w)) ''uri'' ''spice://localhost?port=5900'',
      Spice_session_connect (Suc (next_ptr w)) (Some ''spice://localhost?port=5900'')]"
proof -
  have ok: "calls_ok (running argv evs)" by (rule calls_ok_running)
  have r: "u = Some ''spice://localhost?port=5900''"
    if "Spice_session_connect s u \<in> set (calls (running argv evs))"
  proof -
    from ok that have "call_ok (destroy_handlers (running argv evs)) (Spice_session_connect s u)"
      unfolding calls_ok_def by blast
    then show ?thesis by simp
  qed
  have m: "u = Some ''spice://localhost?port=5900''"
    if "Spice_session_connect s u \<in> set (calls (main_c argv evs))"
  proof -
    from that have "Spice_session_connect s u \<in> set (calls (running argv evs))"
      by (simp add: main_c_eq invoke_def)
    then show ?thesis by (rule r)
  qed
  show ?thesis using r m by (simp add: activate_eq)
qed

text \<open>The statement at a concrete run.\<close>

theorem connection_target_is_fixed_witness:
  "Spice_session_connect 3 (Some ''spice://localhost?port=5900'')
     \<in> set (calls (main_c [''viewer'', ''spice://example.org?port=1''] [App_activate 1]))"
  using connection_target_is_fixed
    [where s = 3 and u = "Some ''spice://localhost?port=5900''"
       and argv = "[''viewer'', ''spice://example.org?port=1'']"
       and evs = "[App_activate 1]" and app = 1 and w = startup]
  by (simp add: main_c_eq invoke_def running_def g_application_run_def startup_eq)

text \<open>
  C9. In every state of a run \<^verbatim>\<open>channelEvent\<close> is connected to channels of type 1 only;
  \<^verbatim>\<open>channelEvent\<close> returns the state unchanged for every event other than
  \<^verbatim>\<open>SPICE_CHANNEL_ERROR_CONNECT\<close>; so a channel event on a channel of another type, and an
  event other than the connect error on any channel, changes nothing.
\<close>

theorem channel_events_change_nothing_else:
  assumes "w = running argv evs"
  shows "(\<forall>c \<in> set (channel_event_handlers w). channel_type c = 1) \<and>
    (ev \<noteq> SPICE_CHANNEL_ERROR_CONNECT \<longrightarrow> channelEvent channel ev v = v) \<and>
    (channel_type channel \<noteq> 1 \<or> ev \<noteq> SPICE_CHANNEL_ERROR_CONNECT \<longrightarrow>
       dispatch (Channel_event channel ev) w = w)"
proof -
  have world_ok: "world_ok w" using assms by (simp add: world_ok_running)
  then have types: "\<forall>c \<in> set (channel_event_handlers w). channel_type c = 1"
    by (simp add: world_ok_def)
  have "dispatch (Channel_event channel ev) w = w" if "channel_type channel \<noteq> 1"
  proof -
    from that types have "channel \<notin> set (channel_event_handlers w)" by blast
    then show ?thesis by (rule dispatch_channel_event_unconnected)
  qed
  moreover have "dispatch (Channel_event channel ev) w = w"
    if "ev \<noteq> SPICE_CHANNEL_ERROR_CONNECT"
    using that by (rule dispatch_channel_event_other)
  moreover have "channelEvent channel ev v = v" if "ev \<noteq> SPICE_CHANNEL_ERROR_CONNECT"
    using that by (rule channelEvent_other)
  ultimately show ?thesis using types by blast
qed

text \<open>The statement at a concrete run.\<close>

theorem channel_events_change_nothing_else_witness:
  "channel_event_handlers (running [] [App_activate 1, Channel_new 3 (Channel 0 1 0)]) =
     [Channel 0 1 0] \<and>
   dispatch (Channel_event (Channel 0 1 0) SPICE_CHANNEL_CLOSED)
     (running [] [App_activate 1, Channel_new 3 (Channel 0 1 0)]) =
     running [] [App_activate 1, Channel_new 3 (Channel 0 1 0)] \<and>
   channelEvent (Channel 0 1 0) SPICE_CHANNEL_ERROR_IO init_world = init_world"
  using channel_events_change_nothing_else
    [where argv = "[]" and evs = "[App_activate 1, Channel_new 3 (Channel 0 1 0)]"
       and ev = SPICE_CHANNEL_CLOSED and channel = "Channel 0 1 0", OF refl]
    channel_events_change_nothing_else
    [where argv = "[]" and evs = "[]" and ev = SPICE_CHANNEL_ERROR_IO
       and channel = "Channel 0 1 0" and v = init_world, OF refl]
  unfolding example_main_announced
  by simp

text \<open>
  C10. In every state of a run, for every application window \<^verbatim>\<open>activate\<close> has made: the
  global \<^verbatim>\<open>spiceSession\<close> is set, and a \<^verbatim>\<open>"destroy"\<close> of that window (the user closes it)
  calls \<^verbatim>\<open>spice_session_disconnect(spiceSession)\<close>, once. On the fatal path,
  \<^verbatim>\<open>channelEvent\<close> emits \<^verbatim>\<open>"destroy"\<close> on \<^verbatim>\<open>window\<close> and the same disconnect request
  follows. The session named is the one the global holds.
\<close>

theorem window_destroy_disconnects:
  assumes "w = running argv evs"
    and "Gtk_application_window_new app win \<in> set (calls w)"
  shows "spiceSession w \<noteq> NULL \<and>
    dispatch (Widget_destroy win) w =
      w\<lparr>calls := calls w @ [Spice_session_disconnect (spiceSession w)]\<rparr> \<and>
    channelEvent channel SPICE_CHANNEL_ERROR_CONNECT w =
      w\<lparr>calls := calls w @
         [Printf (''SPICE_CHANNEL_ERROR_CONNECT'' @ newline) [],
          G_signal_emit_by_name (window w) ''destroy'',
          Spice_session_disconnect (spiceSession w)]\<rparr>"
proof -
  have world_ok: "world_ok w" using assms(1) by (simp add: world_ok_running)
  have "calls_ok w" using assms(1) by (simp add: calls_ok_running)
  then have "call_ok (destroy_handlers w) (Gtk_application_window_new app win)"
    using assms(2) unfolding calls_ok_def by blast
  then have win: "win \<in> set (destroy_handlers w)" by simp
  then have ne: "destroy_handlers w \<noteq> []" by auto
  have sess: "spiceSession w \<noteq> NULL" using world_ok ne by (simp add: world_ok_def)
  have "distinct (destroy_handlers w)" using world_ok by (simp add: world_ok_def)
  then have "connections win (destroy_handlers w) = 1"
    using win by (rule connections_distinct)
  then have user: "dispatch (Widget_destroy win) w =
      w\<lparr>calls := calls w @ [Spice_session_disconnect (spiceSession w)]\<rparr>"
    by (simp add: emit_destroy_eq)
  have "connections (window w) (destroy_handlers w) = 1"
    using world_ok ne by (rule world_ok_window_connected_once)
  then have "channelEvent channel SPICE_CHANNEL_ERROR_CONNECT w =
      w\<lparr>calls := calls w @ teardown_calls w\<rparr>"
    by (rule channelEvent_teardown)
  then show ?thesis using sess user by (simp add: teardown_calls_def)
qed

text \<open>The statement at a concrete run.\<close>

theorem window_destroy_disconnects_witness:
  "Gtk_application_window_new 1 2 \<in> set (calls (running [] [App_activate 1])) \<and>
   calls (dispatch (Widget_destroy 2) (running [] [App_activate 1])) =
     calls (running [] [App_activate 1]) @ [Spice_session_disconnect 3]"
  using window_destroy_disconnects
    [where argv = "[]" and evs = "[App_activate 1]" and app = 1 and win = 2, OF refl]
  unfolding example_activated
  by simp

end
